theory Spec2Isabelle
  imports Main "HOL-Library.Word" "HOL-Library.Multiset"
begin

section \<open>Errors\<close>

text \<open>
  Go errors are values. The ones the modelled functions create or compare against get a
  constructor of their own; an error handed up unchanged from a library or from the
  database driver is \<open>Failure\<close> with its message. A panic is not an error value in Go;
  it ends the call, and is a result of the model like an error.
\<close>

datatype error =
    UnknownKind            \<comment> \<open>\<^verbatim>\<open>errors.New("unknown kind")\<close> in \<^verbatim>\<open>ParseKind\<close>\<close>
  | ErrRecordNotFound      \<comment> \<open>\<^verbatim>\<open>errors.ErrRecordNotFound\<close>\<close>
  | ErrRecordNotUpdate     \<comment> \<open>\<^verbatim>\<open>dberrors.ErrRecordNotUpdate\<close>\<close>
  | clientError            \<comment> \<open>the package variable \<^verbatim>\<open>clientError\<close> of package core\<close>
  | Failure string         \<comment> \<open>any other error, passed on as it came\<close>
  | Panic string           \<comment> \<open>a run-time panic (an index out of range)\<close>

section \<open>Resource discovery and kind resolution (package resourcesstore)\<close>

subsection \<open>Data\<close>

record GroupVersionResource =
  Group :: string
  Version :: string
  Resource :: string

text \<open>The zero value of the struct, which a Go map lookup yields for a missing key.\<close>

definition zeroGVR :: GroupVersionResource where
  "zeroGVR = \<lparr>Group = [], Version = [], Resource = []\<rparr>"

text \<open>The two fields of \<^verbatim>\<open>metav1.APIResource\<close> that \<^verbatim>\<open>GetGVRs\<close> reads.\<close>

record APIResource =
  Name :: string
  Kind :: string

record APIResourceList =
  GroupVersion :: string
  APIResources :: "APIResource list"

text \<open>
  The fields of \<^verbatim>\<open>resourceGetter\<close> that discovery writes and kind resolution reads. A nil
  slice is the empty list and a nil map is the empty map (reading a nil map is a miss).
\<close>

record resourceGetter =
  gvrs :: "GroupVersionResource list"
  gvktogvrSet :: "string \<rightharpoonup> GroupVersionResource"

definition newResourceGetter :: resourceGetter where
  "newResourceGetter = \<lparr>gvrs = [], gvktogvrSet = Map.empty\<rparr>"

subsection \<open>Library functions\<close>

text \<open>
  \<^verbatim>\<open>strings.ToLower\<close> on ASCII text: the letters A to Z are mapped to a to z and every
  other byte is kept (Go also lower-cases letters beyond ASCII; Kubernetes kind names are
  ASCII).
\<close>

definition lowerChar :: "char \<Rightarrow> char" where
  "lowerChar c =
     (let n = (of_char c :: nat) in if 65 \<le> n \<and> n \<le> 90 then char_of (n + 32) else c)"

definition ToLower :: "string \<Rightarrow> string" where
  "ToLower s = map lowerChar s"

text \<open>
  \<^verbatim>\<open>schema.ParseGroupVersion\<close> of k8s.io/apimachinery is not part of the repository.
  \<^verbatim>\<open>GetGVRs\<close> below takes the parser as a parameter; this is the library's function, for
  evaluation: the empty string and \<^verbatim>\<open>/\<close> give the empty group and version, a string
  without a slash is a version of the empty group, one slash separates group from
  version, and more than one slash is an error.
\<close>

definition ParseGroupVersion :: "string \<Rightarrow> error + (string \<times> string)" where
  "ParseGroupVersion gv =
     (if gv = [] \<or> gv = ''/'' then Inr ([], [])
      else if count_list gv (CHR ''/'') = 0 then Inr ([], gv)
      else if count_list gv (CHR ''/'') = 1
        then Inr (takeWhile (\<lambda>c. c \<noteq> CHR ''/'') gv, tl (dropWhile (\<lambda>c. c \<noteq> CHR ''/'') gv))
      else Inl (Failure ''unexpected GroupVersion string''))"

text \<open>
  \<^verbatim>\<open>inflection.Singular\<close> of github.com/jinzhu/inflection is not part of the repository
  either, and \<^verbatim>\<open>ParseKind\<close> takes it as a parameter. For evaluation, this is the rule of
  its table that applies to a regular plural: a final \<^verbatim>\<open>s\<close> or \<^verbatim>\<open>S\<close> is dropped, unless
  the word ends in a double s, and every other letter is kept as it is; the library does
  not change the case of a word (its documentation gives \<^verbatim>\<open>Buses\<close> to \<^verbatim>\<open>Bus\<close> and
  \<^verbatim>\<open>People\<close> to \<^verbatim>\<open>Person\<close>).
\<close>

definition Singular :: "string \<Rightarrow> string" where
  "Singular w =
     (if w = [] then w
      else if ToLower [last w] \<noteq> ''s'' then w
      else if butlast w \<noteq> [] \<and> ToLower [last (butlast w)] = ''s'' then w
      else butlast w)"

subsection \<open>Discovery: \<^verbatim>\<open>GetGVRs\<close>\<close>

definition mkGVR :: "string \<times> string \<Rightarrow> APIResource \<Rightarrow> GroupVersionResource" where
  "mkGVR gv resource = \<lparr>Group = fst gv, Version = snd gv, Resource = Name resource\<rparr>"

text \<open>
  The inner loop over \<^verbatim>\<open>list.APIResources\<close>: each resource is appended to \<^verbatim>\<open>resources\<close>
  and stored in \<^verbatim>\<open>gvktogvrSet\<close> under its lower-cased kind.
\<close>

fun addResources ::
  "string \<times> string \<Rightarrow> APIResource list \<Rightarrow>
   GroupVersionResource list \<times> (string \<rightharpoonup> GroupVersionResource) \<Rightarrow>
   GroupVersionResource list \<times> (string \<rightharpoonup> GroupVersionResource)" where
  "addResources gv [] acc = acc"
| "addResources gv (resource # rest) (resources, gvktogvr) =
     addResources gv rest
       (resources @ [mkGVR gv resource],
        gvktogvr(ToLower (Kind resource) \<mapsto> mkGVR gv resource))"

text \<open>
  The outer loop over the lists: a list without resources is skipped, and so is one whose
  \<^verbatim>\<open>GroupVersion\<close> does not parse.
\<close>

fun addLists ::
  "(string \<Rightarrow> error + (string \<times> string)) \<Rightarrow> APIResourceList list \<Rightarrow>
   GroupVersionResource list \<times> (string \<rightharpoonup> GroupVersionResource) \<Rightarrow>
   GroupVersionResource list \<times> (string \<rightharpoonup> GroupVersionResource)" where
  "addLists parseGV [] acc = acc"
| "addLists parseGV (list # rest) acc =
     (if length (APIResources list) = 0 then addLists parseGV rest acc
      else case parseGV (GroupVersion list) of
             Inl err \<Rightarrow> addLists parseGV rest acc
           | Inr gv \<Rightarrow> addLists parseGV rest (addResources gv (APIResources list) acc))"

text \<open>
  \<^verbatim>\<open>GetGVRs\<close>. The second argument is what \<^verbatim>\<open>rg.dcClient.ServerPreferredResources()\<close>
  returned: the lists and the error, if any (the client returns the lists of the groups
  it could read together with an error naming the groups it could not). The result is
  the receiver after the call and the error returned.
\<close>

definition GetGVRs ::
  "(string \<Rightarrow> error + (string \<times> string)) \<Rightarrow> APIResourceList list \<times> error option \<Rightarrow>
   resourceGetter \<Rightarrow> resourceGetter \<times> error option" where
  "GetGVRs parseGV discovered rg =
     (case snd discovered of
        Some err \<Rightarrow> (rg, Some err)
      | None \<Rightarrow>
          (let (resources, gvktogvr) = addLists parseGV (fst discovered) ([], Map.empty)
           in (rg\<lparr>gvrs := resources, gvktogvrSet := gvktogvr\<rparr>, None)))"

subsection \<open>Kind resolution: \<^verbatim>\<open>ParseKind\<close>\<close>

text \<open>A Go map read \<^verbatim>\<open>v, ok := m[k]\<close>: the zero value and false on a miss.\<close>

definition mapGet :: "(string \<rightharpoonup> GroupVersionResource) \<Rightarrow> string \<Rightarrow> GroupVersionResource \<times> bool" where
  "mapGet m k = (case m k of None \<Rightarrow> (zeroGVR, False) | Some v \<Rightarrow> (v, True))"

definition ParseKind ::
  "(string \<Rightarrow> string) \<Rightarrow> resourceGetter \<Rightarrow> string \<Rightarrow> GroupVersionResource \<times> error option" where
  "ParseKind singular rg kind =
     (let (gvr, ok) = mapGet (gvktogvrSet rg) (ToLower kind) in
      if \<not> ok then
        (let (gvr, ok) = mapGet (gvktogvrSet rg) (singular kind) in
         if \<not> ok then (gvr, Some UnknownKind) else (gvr, None))
      else (gvr, None))"

subsection \<open>What a discovery pass keeps\<close>

text \<open>
  For stating the properties of a pass: the entries a list contributes, as pairs of the
  lower-cased kind and the descriptor, in the order the loops visit them. A list without
  resources and a list whose \<^verbatim>\<open>GroupVersion\<close> the parser rejects contribute none.
\<close>

definition listEntries ::
  "(string \<Rightarrow> error + (string \<times> string)) \<Rightarrow> APIResourceList \<Rightarrow>
   (string \<times> GroupVersionResource) list" where
  "listEntries parseGV l =
     (if APIResources l = [] then []
      else case parseGV (GroupVersion l) of
             Inl err \<Rightarrow> []
           | Inr gv \<Rightarrow> map (\<lambda>r. (ToLower (Kind r), mkGVR gv r)) (APIResources l))"

definition entries ::
  "(string \<Rightarrow> error + (string \<times> string)) \<Rightarrow> APIResourceList list \<Rightarrow>
   (string \<times> GroupVersionResource) list" where
  "entries parseGV ls = concat (map (listEntries parseGV) ls)"

text \<open>Concrete inputs used in the evaluations below.\<close>

definition podResource :: APIResource where
  "podResource = \<lparr>Name = ''pods'', Kind = ''Pod''\<rparr>"

definition coreList :: APIResourceList where
  "coreList = \<lparr>GroupVersion = ''v1'', APIResources = [podResource]\<rparr>"

definition podGVR :: GroupVersionResource where
  "podGVR = \<lparr>Group = [], Version = ''v1'', Resource = ''pods''\<rparr>"

definition rgCore :: resourceGetter where
  "rgCore = fst (GetGVRs ParseGroupVersion ([coreList], None) newResourceGetter)"

definition podsKindList :: APIResourceList where
  "podsKindList = \<lparr>GroupVersion = ''example.com/v1'',
                    APIResources = [\<lparr>Name = ''podses'', Kind = ''Pods''\<rparr>]\<rparr>"

definition rgTwoKinds :: resourceGetter where
  "rgTwoKinds = fst (GetGVRs ParseGroupVersion ([coreList, podsKindList], None) newResourceGetter)"

definition ingressResource :: APIResource where
  "ingressResource = \<lparr>Name = ''ingresses'', Kind = ''Ingress''\<rparr>"

definition extensionsList :: APIResourceList where
  "extensionsList = \<lparr>GroupVersion = ''extensions/v1beta1'', APIResources = [ingressResource]\<rparr>"

definition networkingList :: APIResourceList where
  "networkingList = \<lparr>GroupVersion = ''networking.k8s.io/v1'', APIResources = [ingressResource]\<rparr>"

definition eventResource :: APIResource where
  "eventResource = \<lparr>Name = ''events'', Kind = ''Event''\<rparr>"

definition coreEventList :: APIResourceList where
  "coreEventList = \<lparr>GroupVersion = ''v1'', APIResources = [eventResource]\<rparr>"

definition eventsGroupList :: APIResourceList where
  "eventsGroupList = \<lparr>GroupVersion = ''events.k8s.io/v1'', APIResources = [eventResource]\<rparr>"

definition brokenList :: APIResourceList where
  "brokenList = \<lparr>GroupVersion = ''a/b/c'', APIResources = [eventResource]\<rparr>"

definition rgIngress :: resourceGetter where
  "rgIngress = fst (GetGVRs ParseGroupVersion ([extensionsList, networkingList], None) newResourceGetter)"

definition rgEvents :: resourceGetter where
  "rgEvents = fst (GetGVRs ParseGroupVersion ([coreEventList, eventsGroupList], None) newResourceGetter)"

definition partialDiscovery :: "APIResourceList list \<times> error option" where
  "partialDiscovery =
     ([coreList], Some (Failure ''unable to retrieve the complete list of server APIs''))"

section \<open>The tenant and user tables (packages mysql and user)\<close>

subsection \<open>Rows, tables and the three statements the functions issue\<close>

text \<open>
  A row maps column names to values; this is also the shape of the \<^verbatim>\<open>updates\<close> argument
  (\<^verbatim>\<open>map[string]interface{}\<close>). \<^verbatim>\<open>int64\<close> columns are 64-bit words, so that
  \<^verbatim>\<open>resourceVersion + 1\<close> wraps as it does in Go; \<open>sint\<close> reads the signed value.
\<close>

type_synonym int64 = "64 word"

datatype val = IntV int64 | StrV string | TimeV nat

type_synonym row = "string \<rightharpoonup> val"

type_synonym table = "row list"

text \<open>The conditions \<^verbatim>\<open>Where("id = ?", id)\<close> and
  \<^verbatim>\<open>Where("id = ? and resource_version = ?", id, resourceVersion)\<close>.\<close>

definition whereId :: "int64 \<Rightarrow> row \<Rightarrow> bool" where
  "whereId tid r = (r ''id'' = Some (IntV tid))"

definition whereIdVersion :: "int64 \<Rightarrow> int64 \<Rightarrow> row \<Rightarrow> bool" where
  "whereIdVersion tid resourceVersion r =
     (r ''id'' = Some (IntV tid) \<and> r ''resource_version'' = Some (IntV resourceVersion))"

text \<open>
  The statements of the gorm session. Each takes the outcome of the driver for this
  statement (\<open>None\<close>: the statement runs; \<open>Some err\<close>: it fails with \<open>err\<close> and changes
  nothing) and the table.

  \<^verbatim>\<open>Updates\<close> sets the given columns in every row that satisfies the condition and reports
  the number of rows affected (in the two callers below every such row changes, in its
  resource version, so a driver that counts changed rows counts the same); \<^verbatim>\<open>First\<close> yields the first row that satisfies the condition,
  or \<^verbatim>\<open>ErrRecordNotFound\<close>; \<^verbatim>\<open>Delete\<close> removes every row that satisfies the condition.
\<close>

definition db_Updates ::
  "error option \<Rightarrow> (row \<Rightarrow> bool) \<Rightarrow> row \<Rightarrow> table \<Rightarrow> table \<times> error option \<times> nat" where
  "db_Updates fault cond updates t =
     (case fault of
        Some err \<Rightarrow> (t, Some err, 0)
      | None \<Rightarrow> (map (\<lambda>r. if cond r then r ++ updates else r) t, None, length (filter cond t)))"

definition db_First :: "error option \<Rightarrow> (row \<Rightarrow> bool) \<Rightarrow> table \<Rightarrow> error + row" where
  "db_First fault cond t =
     (case fault of
        Some err \<Rightarrow> Inl err
      | None \<Rightarrow> (case filter cond t of [] \<Rightarrow> Inl ErrRecordNotFound | r # rest \<Rightarrow> Inr r))"

definition db_Delete :: "error option \<Rightarrow> (row \<Rightarrow> bool) \<Rightarrow> table \<Rightarrow> table \<times> error option" where
  "db_Delete fault cond t =
     (case fault of
        Some err \<Rightarrow> (t, Some err)
      | None \<Rightarrow> (filter (\<lambda>r. \<not> cond r) t, None))"

definition IsRecordNotFound :: "error \<Rightarrow> bool" where
  "IsRecordNotFound err = (err = ErrRecordNotFound)"

subsection \<open>\<^verbatim>\<open>tenant.Update\<close> and \<^verbatim>\<open>user.Update\<close>\<close>

text \<open>
  Arguments: the driver's outcome, the value of \<^verbatim>\<open>time.Now()\<close>, the table, and the
  arguments of the Go method. Result: the table afterwards and the error returned.
\<close>

definition tenant_Update ::
  "error option \<Rightarrow> nat \<Rightarrow> table \<Rightarrow> int64 \<Rightarrow> int64 \<Rightarrow> row \<Rightarrow> table \<times> error option" where
  "tenant_Update fault now t tid resourceVersion updates =
     (let updates = updates(''gmt_modified'' \<mapsto> TimeV now);
          updates = updates(''resource_version'' \<mapsto> IntV (resourceVersion + 1));
          (t', fError, rowsAffected) =
             db_Updates fault (whereIdVersion tid resourceVersion) updates t
      in case fError of
           Some err \<Rightarrow> (t', Some err)
         | None \<Rightarrow> if rowsAffected = 0 then (t', Some ErrRecordNotFound) else (t', None))"

definition user_Update ::
  "error option \<Rightarrow> nat \<Rightarrow> table \<Rightarrow> int64 \<Rightarrow> int64 \<Rightarrow> row \<Rightarrow> table \<times> error option" where
  "user_Update fault now t uid resourceVersion updates =
     (let updates = updates(''gmt_modified'' \<mapsto> TimeV now);
          updates = updates(''resource_version'' \<mapsto> IntV (resourceVersion + 1));
          (t', fError, rowsAffected) =
             db_Updates fault (whereIdVersion uid resourceVersion) updates t
      in case fError of
           Some err \<Rightarrow> (t', Some err)
         | None \<Rightarrow> if rowsAffected = 0 then (t', Some ErrRecordNotUpdate) else (t', None))"

subsection \<open>\<^verbatim>\<open>tenant.Get\<close> and \<^verbatim>\<open>tenant.Delete\<close>\<close>

text \<open>The result of \<^verbatim>\<open>Get\<close> is the Go pair: the object or nil, and the error or nil.\<close>

definition tenant_Get :: "error option \<Rightarrow> table \<Rightarrow> int64 \<Rightarrow> row option \<times> error option" where
  "tenant_Get fault t tid =
     (case db_First fault (whereId tid) t of
        Inl err \<Rightarrow> if IsRecordNotFound err then (None, None) else (None, Some err)
      | Inr object \<Rightarrow> (Some object, None))"

text \<open>
  \<^verbatim>\<open>Delete\<close> issues two statements, the read of \<^verbatim>\<open>Get\<close> and the delete, each with its own
  driver outcome. Result: the table afterwards, the object and the error.
\<close>

definition tenant_Delete ::
  "error option \<Rightarrow> error option \<Rightarrow> table \<Rightarrow> int64 \<Rightarrow> table \<times> row option \<times> error option" where
  "tenant_Delete faultGet faultDelete t tid =
     (case tenant_Get faultGet t tid of
        (object, Some err) \<Rightarrow> (t, None, Some err)
      | (None, None) \<Rightarrow> (t, None, None)
      | (Some object, None) \<Rightarrow>
          (case db_Delete faultDelete (whereId tid) t of
             (t', Some err) \<Rightarrow> (t', None, Some err)
           | (t', None) \<Rightarrow> (t', Some object, None)))"

text \<open>Concrete rows used in the evaluations below.\<close>

definition maxInt64 :: int64 where
  "maxInt64 = 9223372036854775807"

definition tenantRow :: "int64 \<Rightarrow> int64 \<Rightarrow> string \<Rightarrow> row" where
  "tenantRow tid version name =
     [''id'' \<mapsto> IntV tid, ''resource_version'' \<mapsto> IntV version, ''name'' \<mapsto> StrV name]"

definition renameTo :: "string \<Rightarrow> row" where
  "renameTo name = [''name'' \<mapsto> StrV name]"

section \<open>The watch cache\<close>

text \<open>
  Modelled from the spec: the watch cache and its drop-stale rule. The store of the
  resource getter (the type \<^verbatim>\<open>Store\<close> that \<^verbatim>\<open>NewResourceGetter\<close> creates with \<^verbatim>\<open>NewStore\<close>) is
  not among the source files. After the spec, an entry carries namespace, name, a
  version token and the payload; the cache is keyed by namespace and name; and an update
  event is applied only if its version token is strictly greater than the token of the
  cached entry (an object that is not cached yet has no token to compare with, and is
  stored). Only update events are modelled.
\<close>

record cachedObject =
  namespace :: string
  objectName :: string
  versionToken :: nat
  payload :: string

type_synonym WatchCache = "string \<times> string \<rightharpoonup> cachedObject"

definition cacheKey :: "cachedObject \<Rightarrow> string \<times> string" where
  "cacheKey obj = (namespace obj, objectName obj)"

definition applyUpdate :: "cachedObject \<Rightarrow> WatchCache \<Rightarrow> WatchCache" where
  "applyUpdate ev cache =
     (case cache (cacheKey ev) of
        None \<Rightarrow> cache(cacheKey ev \<mapsto> ev)
      | Some cur \<Rightarrow>
          if versionToken cur < versionToken ev then cache(cacheKey ev \<mapsto> ev) else cache)"

fun applyUpdates :: "cachedObject list \<Rightarrow> WatchCache \<Rightarrow> WatchCache" where
  "applyUpdates [] cache = cache"
| "applyUpdates (ev # evs) cache = applyUpdates evs (applyUpdate ev cache)"

text \<open>An object at a version, for the evaluations below.\<close>

definition podAt :: "nat \<Rightarrow> cachedObject" where
  "podAt n = \<lparr>namespace = ''default'', objectName = ''a'', versionToken = n,
              payload = ''revision''\<rparr>"

section \<open>Per-cluster kubeconfigs (package core)\<close>

subsection \<open>Data\<close>

text \<open>\<^verbatim>\<open>types.KubeConfig\<close>, and \<^verbatim>\<open>model.KubeConfig\<close> with the resource version of its row.\<close>

record KubeConfig =
  CloudName :: string
  ServiceAccount :: string
  ClusterRole :: string
  Config :: string
  ExpirationTimestamp :: string

record KubeConfigModel = KubeConfig +
  ResourceVersion :: int64

text \<open>The kubeconfig document that is marshalled to YAML.\<close>

record kubeconfig_cluster =
  clusterName :: string
  Server :: string
  CertificateAuthorityData :: string

record kubeconfig_context =
  contextName :: string
  contextCluster :: string
  contextUser :: string

record kubeconfig_user =
  userName :: string
  Token :: string

record kubeconfig =
  APIVersion :: string
  configKind :: string
  CurrentContext :: string
  Clusters :: "kubeconfig_cluster list"
  Contexts :: "kubeconfig_context list"
  Users :: "kubeconfig_user list"

text \<open>The two fields read from the status of a token request.\<close>

record TokenStatus =
  statusToken :: string
  statusExpirationTimestamp :: string

subsection \<open>The world outside: remote cluster, database, libraries\<close>

text \<open>
  The state the functions act on: the remote cluster, the database, and the log of the
  calls made to either, in order. The types of cluster and database are parameters.
\<close>

datatype call = RemoteCall string | DbRead string | DbWrite string

record ('c, 'd) world =
  cluster :: 'c
  database :: 'd
  calls :: "call list"

text \<open>
  The calls of \<^verbatim>\<open>kubernetes.Clientset\<close> that the functions make, each a function of the
  cluster's state; and the data access object \<^verbatim>\<open>c.factory.KubeConfig()\<close>, each method a
  function of the database. Neither is in the source files: they are parameters.
\<close>

record 'c clientset =
  createServiceAccount :: "string \<Rightarrow> 'c \<Rightarrow> (error + unit) \<times> 'c"
  createClusterRoleBinding :: "string \<Rightarrow> string \<Rightarrow> 'c \<Rightarrow> (error + unit) \<times> 'c"
  getRootCA :: "'c \<Rightarrow> (error + string) \<times> 'c"
  createTokenRequest :: "string \<Rightarrow> 'c \<Rightarrow> (error + TokenStatus) \<times> 'c"
  deleteClusterRoleBinding :: "string \<Rightarrow> 'c \<Rightarrow> (error + unit) \<times> 'c"
  deleteServiceAccount :: "string \<Rightarrow> 'c \<Rightarrow> (error + unit) \<times> 'c"

record 'd kubeConfigDao =
  daoCreate :: "KubeConfigModel \<Rightarrow> 'd \<Rightarrow> (error + unit) \<times> 'd"
  daoGet :: "int64 \<Rightarrow> 'd \<Rightarrow> error + KubeConfigModel"
  daoUpdate :: "int64 \<Rightarrow> int64 \<Rightarrow> (string \<rightharpoonup> string) \<Rightarrow> 'd \<Rightarrow> (error + unit) \<times> 'd"
  daoDelete :: "int64 \<Rightarrow> 'd \<Rightarrow> (error + unit) \<times> 'd"
  daoList :: "string \<Rightarrow> 'd \<Rightarrow> error + KubeConfigModel list"

text \<open>The pure library functions: YAML, the cipher and base64.\<close>

record libraries =
  yamlMarshal :: "kubeconfig \<Rightarrow> error + string"
  yamlUnmarshal :: "string \<Rightarrow> kubeconfig \<Rightarrow> error + kubeconfig"
  cipherEncrypt :: "string \<Rightarrow> error + string"
  cipherDecrypt :: "string \<Rightarrow> error + string"
  base64Encode :: "string \<Rightarrow> string"

text \<open>The struct \<^verbatim>\<open>kubeConfigs\<close>; a nil \<^verbatim>\<open>client\<close> is \<open>None\<close>.\<close>

record ('c, 'd) kubeConfigs =
  client :: "'c clientset option"
  cloud :: string
  factory :: "'d kubeConfigDao"

subsection \<open>Sequencing\<close>

text \<open>
  An action takes the world and gives a result or an error, and the world afterwards.
  \<open>andThen\<close> is the Go idiom \<^verbatim>\<open>x, err := f(); if err != nil { return nil, err }\<close>: the rest
  runs only after a result. (Log lines are not modelled.)
\<close>

type_synonym ('a, 'w) action = "'w \<Rightarrow> (error + 'a) \<times> 'w"

definition succeed :: "'a \<Rightarrow> ('a, 'w) action" where
  "succeed x = (\<lambda>w. (Inr x, w))"

definition failWith :: "error \<Rightarrow> ('a, 'w) action" where
  "failWith err = (\<lambda>w. (Inl err, w))"

definition pure :: "error + 'a \<Rightarrow> ('a, 'w) action" where
  "pure r = (\<lambda>w. (r, w))"

definition andThen :: "('a, 'w) action \<Rightarrow> ('a \<Rightarrow> ('b, 'w) action) \<Rightarrow> ('b, 'w) action" where
  "andThen m f = (\<lambda>w. case m w of (Inl err, w') \<Rightarrow> (Inl err, w') | (Inr x, w') \<Rightarrow> f x w')"

text \<open>A call to the remote cluster, a read of the database, a write to it: each is logged.\<close>

definition remote :: "string \<Rightarrow> ('c \<Rightarrow> (error + 'a) \<times> 'c) \<Rightarrow> ('a, ('c, 'd) world) action" where
  "remote what f =
     (\<lambda>w. case f (cluster w) of
             (r, c') \<Rightarrow> (r, w\<lparr>cluster := c', calls := calls w @ [RemoteCall what]\<rparr>))"

definition dbRead :: "string \<Rightarrow> ('d \<Rightarrow> error + 'a) \<Rightarrow> ('a, ('c, 'd) world) action" where
  "dbRead what f = (\<lambda>w. (f (database w), w\<lparr>calls := calls w @ [DbRead what]\<rparr>))"

definition dbWrite :: "string \<Rightarrow> ('d \<Rightarrow> (error + 'a) \<times> 'd) \<Rightarrow> ('a, ('c, 'd) world) action" where
  "dbWrite what f =
     (\<lambda>w. case f (database w) of
             (r, d') \<Rightarrow> (r, w\<lparr>database := d', calls := calls w @ [DbWrite what]\<rparr>))"

subsection \<open>The kubeconfig document\<close>

definition newConfig :: kubeconfig where
  "newConfig =
     \<lparr>APIVersion = ''v1'', configKind = ''Config'', CurrentContext = ''kubernetes'',
      Clusters = [\<lparr>clusterName = ''kubernetes'', Server = [], CertificateAuthorityData = []\<rparr>],
      Contexts = [\<lparr>contextName = ''kubernetes'', contextCluster = [], contextUser = []\<rparr>],
      Users = [\<lparr>userName = [], Token = []\<rparr>]\<rparr>"

text \<open>The setters write element 0 of a slice; on an empty slice Go panics.\<close>

definition setServer :: "string \<Rightarrow> kubeconfig \<Rightarrow> error + kubeconfig" where
  "setServer server c =
     (case Clusters c of
        [] \<Rightarrow> Inl (Panic ''index out of range'')
      | x # xs \<Rightarrow> Inr (c\<lparr>Clusters := x\<lparr>Server := server\<rparr> # xs\<rparr>))"

definition setCA :: "string \<Rightarrow> kubeconfig \<Rightarrow> error + kubeconfig" where
  "setCA ca c =
     (case Clusters c of
        [] \<Rightarrow> Inl (Panic ''index out of range'')
      | x # xs \<Rightarrow> Inr (c\<lparr>Clusters := x\<lparr>CertificateAuthorityData := ca\<rparr> # xs\<rparr>))"

definition setSA :: "string \<Rightarrow> string \<Rightarrow> kubeconfig \<Rightarrow> error + kubeconfig" where
  "setSA saName saToken c =
     (case Contexts c of
        [] \<Rightarrow> Inl (Panic ''index out of range'')
      | x # xs \<Rightarrow>
          (case Users c of
             [] \<Rightarrow> Inl (Panic ''index out of range'')
           | u # us \<Rightarrow>
               Inr (c\<lparr>Contexts := x\<lparr>contextUser := saName\<rparr> # xs,
                       Users := u\<lparr>userName := saName, Token := saToken\<rparr> # us\<rparr>)))"

definition model2Type :: "KubeConfigModel \<Rightarrow> KubeConfig" where
  "model2Type m =
     \<lparr>CloudName = CloudName m, ServiceAccount = ServiceAccount m, ClusterRole = ClusterRole m,
      Config = Config m, ExpirationTimestamp = ExpirationTimestamp m\<rparr>"

text \<open>\<^verbatim>\<open>type2Model\<close> leaves the fields of the embedded model at their zero values.\<close>

definition type2Model :: "KubeConfig \<Rightarrow> KubeConfigModel" where
  "type2Model t =
     \<lparr>CloudName = CloudName t, ServiceAccount = ServiceAccount t, ClusterRole = ClusterRole t,
      Config = Config t, ExpirationTimestamp = ExpirationTimestamp t, ResourceVersion = 0\<rparr>"

definition newCA :: "'c clientset \<Rightarrow> libraries \<Rightarrow> (string, ('c, 'd) world) action" where
  "newCA cl lib =
     andThen (remote ''ConfigMaps.Get'' (getRootCA cl)) (\<lambda>ca. succeed (base64Encode lib ca))"

definition createToken :: "'c clientset \<Rightarrow> string \<Rightarrow> (TokenStatus, ('c, 'd) world) action" where
  "createToken cl saName = remote ''ServiceAccounts.CreateToken'' (createTokenRequest cl saName)"

subsection \<open>The five operations of \<^verbatim>\<open>KubeConfigInterface\<close>\<close>

definition kubeConfigs_Create ::
  "libraries \<Rightarrow> ('c, 'd) kubeConfigs \<Rightarrow> KubeConfig \<Rightarrow> (KubeConfig, ('c, 'd) world) action" where
  "kubeConfigs_Create lib c kubeConfig =
     (case client c of
        None \<Rightarrow> failWith clientError
      | Some cl \<Rightarrow>
          andThen (remote ''ServiceAccounts.Create''
                     (createServiceAccount cl (ServiceAccount kubeConfig))) (\<lambda>_.
          andThen (remote ''ClusterRoleBindings.Create''
                     (createClusterRoleBinding cl (ServiceAccount kubeConfig)
                        (ClusterRole kubeConfig))) (\<lambda>_.
          andThen (newCA cl lib) (\<lambda>ca.
          andThen (createToken cl (ServiceAccount kubeConfig)) (\<lambda>token.
          andThen (pure (setServer ''https://39.100.127.217:6443'' newConfig)) (\<lambda>config.
          andThen (pure (setCA ca config)) (\<lambda>config.
          andThen (pure (setSA (ServiceAccount kubeConfig) (statusToken token) config)) (\<lambda>config.
          andThen (pure (yamlMarshal lib config)) (\<lambda>configByte.
            (let kubeConfig = kubeConfig\<lparr>CloudName := cloud c, Config := configByte,
                                ExpirationTimestamp := statusExpirationTimestamp token\<rparr>;
                 obj = type2Model kubeConfig
             in andThen (pure (cipherEncrypt lib configByte)) (\<lambda>encrypted.
                andThen (dbWrite ''Create'' (daoCreate (factory c) (obj\<lparr>Config := encrypted\<rparr>))) (\<lambda>_.
                succeed kubeConfig))))))))))))"

definition kubeConfigs_Update ::
  "libraries \<Rightarrow> ('c, 'd) kubeConfigs \<Rightarrow> int64 \<Rightarrow> (KubeConfig, ('c, 'd) world) action" where
  "kubeConfigs_Update lib c kid =
     (case client c of
        None \<Rightarrow> failWith clientError
      | Some cl \<Rightarrow>
          andThen (dbRead ''Get'' (daoGet (factory c) kid)) (\<lambda>obj.
          andThen (pure (cipherDecrypt lib (Config obj))) (\<lambda>configByte.
          andThen (pure (yamlUnmarshal lib configByte newConfig)) (\<lambda>config.
          andThen (createToken cl (ServiceAccount obj)) (\<lambda>token.
          andThen (pure (setSA (ServiceAccount obj) (statusToken token) config)) (\<lambda>config.
          andThen (pure (yamlMarshal lib config)) (\<lambda>newConfigByte.
          andThen (pure (cipherEncrypt lib newConfigByte)) (\<lambda>newConfigEncryptStr.
          andThen (dbWrite ''Update''
                     (daoUpdate (factory c) kid (ResourceVersion obj + 1)
                        [''config'' \<mapsto> newConfigEncryptStr])) (\<lambda>_.
          succeed ((model2Type obj)\<lparr>Config := newConfigByte,
                  ExpirationTimestamp := statusExpirationTimestamp token\<rparr>))))))))))"

definition kubeConfigs_Delete ::
  "('c, 'd) kubeConfigs \<Rightarrow> int64 \<Rightarrow> (unit, ('c, 'd) world) action" where
  "kubeConfigs_Delete c kid =
     (case client c of
        None \<Rightarrow> failWith clientError
      | Some cl \<Rightarrow>
          andThen (dbRead ''Get'' (daoGet (factory c) kid)) (\<lambda>obj.
          andThen (remote ''ClusterRoleBindings.Delete''
                     (deleteClusterRoleBinding cl (ServiceAccount obj))) (\<lambda>_.
          andThen (remote ''ServiceAccounts.Delete''
                     (deleteServiceAccount cl (ServiceAccount obj))) (\<lambda>_.
          andThen (dbWrite ''Delete'' (daoDelete (factory c) kid)) (\<lambda>_.
          succeed ())))))"

definition kubeConfigs_Get ::
  "libraries \<Rightarrow> ('c, 'd) kubeConfigs \<Rightarrow> int64 \<Rightarrow> (KubeConfig, ('c, 'd) world) action" where
  "kubeConfigs_Get lib c kid =
     (case client c of
        None \<Rightarrow> failWith clientError
      | Some cl \<Rightarrow>
          andThen (dbRead ''Get'' (daoGet (factory c) kid)) (\<lambda>obj.
          andThen (pure (cipherDecrypt lib (Config obj))) (\<lambda>configByte.
          succeed ((model2Type obj)\<lparr>Config := configByte\<rparr>))))"

text \<open>The loop of \<^verbatim>\<open>List\<close>: the first row that does not decrypt ends it with the error.\<close>

fun decryptAll :: "libraries \<Rightarrow> KubeConfigModel list \<Rightarrow> KubeConfig list \<Rightarrow> error + KubeConfig list" where
  "decryptAll lib [] kubeConfigs = Inr kubeConfigs"
| "decryptAll lib (obj # objs) kubeConfigs =
     (case cipherDecrypt lib (Config obj) of
        Inl err \<Rightarrow> Inl err
      | Inr configByte \<Rightarrow>
          decryptAll lib objs (kubeConfigs @ [(model2Type obj)\<lparr>Config := configByte\<rparr>]))"

definition kubeConfigs_List ::
  "libraries \<Rightarrow> ('c, 'd) kubeConfigs \<Rightarrow> string \<Rightarrow> (KubeConfig list, ('c, 'd) world) action" where
  "kubeConfigs_List lib c cloudName =
     (case client c of
        None \<Rightarrow> failWith clientError
      | Some cl \<Rightarrow>
          andThen (dbRead ''List'' (daoList (factory c) cloudName)) (\<lambda>objs.
          pure (decryptAll lib objs [])))"

text \<open>A database of one row, libraries that do nothing, and a cluster that accepts every
  call, for the evaluations below.\<close>

definition plainLibraries :: libraries where
  "plainLibraries =
     \<lparr>yamlMarshal = (\<lambda>c. Inr (concat (map Token (Users c)))),
      yamlUnmarshal = (\<lambda>s c. Inr c),
      cipherEncrypt = (\<lambda>s. Inr s), cipherDecrypt = (\<lambda>s. Inr s), base64Encode = (\<lambda>s. s)\<rparr>"

definition listDao :: "KubeConfigModel list kubeConfigDao" where
  "listDao =
     \<lparr>daoCreate = (\<lambda>obj d. (Inr (), d @ [obj])),
      daoGet = (\<lambda>kid d. if unat kid < length d then Inr (d ! unat kid) else Inl ErrRecordNotFound),
      daoUpdate = (\<lambda>kid rv updates d. (Inr (), d)),
      daoDelete = (\<lambda>kid d. (Inr (), d)),
      daoList = (\<lambda>cloudName d. Inr (filter (\<lambda>obj. CloudName obj = cloudName) d))\<rparr>"

definition okClient :: "nat clientset" where
  "okClient =
     \<lparr>createServiceAccount = (\<lambda>n c. (Inr (), Suc c)),
      createClusterRoleBinding = (\<lambda>n r c. (Inr (), Suc c)),
      getRootCA = (\<lambda>c. (Inr ''ca'', c)),
      createTokenRequest = (\<lambda>n c. (Inr \<lparr>statusToken = ''t'', statusExpirationTimestamp = ''e''\<rparr>, Suc c)),
      deleteClusterRoleBinding = (\<lambda>n c. (Inr (), Suc c)),
      deleteServiceAccount = (\<lambda>n c. (Inr (), Suc c))\<rparr>"

definition storedConfig :: KubeConfigModel where
  "storedConfig =
     \<lparr>CloudName = ''c1'', ServiceAccount = ''sa'', ClusterRole = ''view'', Config = ''cfg'',
      ExpirationTimestamp = ''e'', ResourceVersion = 0\<rparr>"

definition someWorld :: "(nat, KubeConfigModel list) world" where
  "someWorld = \<lparr>cluster = 0, database = [storedConfig], calls = []\<rparr>"

definition nilClientConfigs :: "(nat, KubeConfigModel list) kubeConfigs" where
  "nilClientConfigs = \<lparr>client = None, cloud = ''c1'', factory = listDao\<rparr>"

definition liveConfigs :: "(nat, KubeConfigModel list) kubeConfigs" where
  "liveConfigs = \<lparr>client = Some okClient, cloud = ''c1'', factory = listDao\<rparr>"

section \<open>Properties of discovery and kind resolution\<close>

lemma addResources_eq:
  "addResources gv rs (acc, m) =
     (acc @ map (mkGVR gv) rs,
      m ++ map_of (rev (map (\<lambda>r. (ToLower (Kind r), mkGVR gv r)) rs)))"
proof (induction rs arbitrary: acc m)
  case Nil
  then show ?case by simp
next
  case (Cons r rs)
  show ?case
    by (simp add: Cons.IH map_of_append)
       (rule ext, simp add: map_add_def split: option.split)
qed

lemma addLists_eq:
  "addLists parseGV ls (acc, m) =
     (acc @ map snd (entries parseGV ls), m ++ map_of (rev (entries parseGV ls)))"
proof (induction ls arbitrary: acc m)
  case Nil
  then show ?case by (simp add: entries_def)
next
  case (Cons l ls)
  show ?case
  proof (cases "APIResources l = []")
    case True
    with Cons show ?thesis by (simp add: entries_def listEntries_def)
  next
    case False
    show ?thesis
    proof (cases "parseGV (GroupVersion l)")
      case (Inl e)
      with False Cons show ?thesis by (simp add: entries_def listEntries_def)
    next
      case (Inr gv)
      with False Cons show ?thesis
        by (simp add: entries_def listEntries_def addResources_eq comp_def)
    qed
  qed
qed

lemma GetGVRs_ok:
  "GetGVRs parseGV (ls, None) rg =
     (rg\<lparr>gvrs := map snd (entries parseGV ls),
         gvktogvrSet := map_of (rev (entries parseGV ls))\<rparr>, None)"
  by (simp add: GetGVRs_def addLists_eq)

lemma GetGVRs_failed: "GetGVRs parseGV (ls, Some err) rg = (rg, Some err)"
  by (simp add: GetGVRs_def)

lemma entries_append: "entries parseGV (xs @ ys) = entries parseGV xs @ entries parseGV ys"
  by (simp add: entries_def)

lemma entries_Cons: "entries parseGV (l # ls) = listEntries parseGV l @ entries parseGV ls"
  by (simp add: entries_def)

lemma entries_Nil: "entries parseGV [] = []"
  by (simp add: entries_def)

lemma map_of_rev_last:
  assumes "k \<notin> fst ` set after"
  shows "map_of (rev (before @ (k, g) # after)) k = Some g"
proof -
  from assms have "map_of (rev after) k = None"
    by (simp add: map_of_eq_None_iff)
  then show ?thesis
    by (simp add: map_of_append map_add_def)
qed

lemma ParseKind_eq:
  "ParseKind singular rg kind =
     (case gvktogvrSet rg (ToLower kind) of
        Some gvr \<Rightarrow> (gvr, None)
      | None \<Rightarrow>
          (case gvktogvrSet rg (singular kind) of
             Some gvr \<Rightarrow> (gvr, None)
           | None \<Rightarrow> (zeroGVR, Some UnknownKind)))"
  by (simp add: ParseKind_def mapGet_def split: option.split)

lemma ToLower_pod: "ToLower ''pod'' = ''pod''"
  by code_simp

lemma ToLower_Pod: "ToLower ''Pod'' = ''pod''"
  by code_simp

lemma ToLower_pods: "ToLower ''pods'' = ''pods''"
  by code_simp

lemma ToLower_Pods: "ToLower ''Pods'' = ''pods''"
  by code_simp

lemma Singular_pods: "Singular ''pods'' = ''pod''"
  by code_simp

lemma Singular_Pods: "Singular ''Pods'' = ''Pod''"
  by code_simp

lemma ParseGroupVersion_v1: "ParseGroupVersion ''v1'' = Inr ([], ''v1'')"
  by (simp add: ParseGroupVersion_def)

lemma entries_coreList: "entries ParseGroupVersion [coreList] = [(''pod'', podGVR)]"
  by (simp add: entries_def listEntries_def coreList_def podResource_def podGVR_def
      ParseGroupVersion_v1 mkGVR_def ToLower_Pod)

lemma rgCore_index: "gvktogvrSet rgCore = [''pod'' \<mapsto> podGVR]"
  by (simp add: rgCore_def GetGVRs_ok entries_coreList)

lemma ParseGroupVersion_example: "ParseGroupVersion ''example.com/v1'' = Inr (''example.com'', ''v1'')"
  by (simp add: ParseGroupVersion_def)

lemma rgTwoKinds_index:
  "gvktogvrSet rgTwoKinds =
     [''pod'' \<mapsto> podGVR, ''pods'' \<mapsto> \<lparr>Group = ''example.com'', Version = ''v1'', Resource = ''podses''\<rparr>]"
  by (simp add: rgTwoKinds_def GetGVRs_ok entries_Cons entries_Nil listEntries_def coreList_def
      podResource_def podGVR_def podsKindList_def ParseGroupVersion_v1 ParseGroupVersion_example
      mkGVR_def ToLower_Pod ToLower_Pods)

subsection \<open>Kind resolution\<close>



text \<open>
  C1, as amended. Let a discovery pass without error read a resource of kind \<^verbatim>\<open>Pod\<close> from
  a list that it keeps. Then the index holds a descriptor under \<^verbatim>\<open>pod\<close>, and
  \<^verbatim>\<open>ParseKind\<close> returns this descriptor for \<^verbatim>\<open>pod\<close> and for \<^verbatim>\<open>Pod\<close>, and for \<^verbatim>\<open>pods\<close> too
  when the index has no key \<^verbatim>\<open>pods\<close> and the singular of \<^verbatim>\<open>pods\<close> is \<^verbatim>\<open>pod\<close>.
\<close>

theorem ParseKind_pod_spellings:
  assumes "GetGVRs parseGV (ls, None) rg0 = (rg, err)"
    and "l \<in> set ls" and "parseGV (GroupVersion l) = Inr gv"
    and "r \<in> set (APIResources l)" and "Kind r = ''Pod''"
  shows "\<exists>d. gvktogvrSet rg ''pod'' = Some d
           \<and> ParseKind singular rg ''pod'' = (d, None)
           \<and> ParseKind singular rg ''Pod'' = (d, None)
           \<and> (gvktogvrSet rg ''pods'' = None \<and> singular ''pods'' = ''pod''
                \<longrightarrow> ParseKind singular rg ''pods'' = (d, None))"
proof -
  from assms(1) have idx: "gvktogvrSet rg = map_of (rev (entries parseGV ls))"
    by (auto simp add: GetGVRs_ok)
  from assms(4) have ne: "APIResources l \<noteq> []" by auto
  from assms(3,4,5) ne have "(''pod'', mkGVR gv r) \<in> set (listEntries parseGV l)"
    by (force simp add: listEntries_def ToLower_Pod [symmetric])
  with assms(2) have "''pod'' \<in> fst ` set (entries parseGV ls)"
    by (force simp add: entries_def)
  then have "map_of (rev (entries parseGV ls)) ''pod'' \<noteq> None"
    by (simp add: map_of_eq_None_iff)
  then obtain d where d: "gvktogvrSet rg ''pod'' = Some d"
    using idx by auto
  then show ?thesis
    by (simp add: ParseKind_eq ToLower_pod ToLower_Pod ToLower_pods)
qed

text \<open>The three spellings on the index of a cluster whose only kind is \<^verbatim>\<open>Pod\<close>.\<close>

theorem ParseKind_pod_spellings_witness:
  "ParseKind Singular rgCore ''pod'' = (podGVR, None)
   \<and> ParseKind Singular rgCore ''Pod'' = (podGVR, None)
   \<and> ParseKind Singular rgCore ''pods'' = (podGVR, None)"
proof -
  have run: "GetGVRs ParseGroupVersion ([coreList], None) newResourceGetter
               = (rgCore, snd (GetGVRs ParseGroupVersion ([coreList], None) newResourceGetter))"
    by (simp add: rgCore_def)
  have "\<exists>d. gvktogvrSet rgCore ''pod'' = Some d
           \<and> ParseKind Singular rgCore ''pod'' = (d, None)
           \<and> ParseKind Singular rgCore ''Pod'' = (d, None)
           \<and> (gvktogvrSet rgCore ''pods'' = None \<and> Singular ''pods'' = ''pod''
                \<longrightarrow> ParseKind Singular rgCore ''pods'' = (d, None))"
    by (rule ParseKind_pod_spellings [OF run, of coreList "([], ''v1'')" podResource])
       (simp_all add: coreList_def podResource_def ParseGroupVersion_v1)
  then show ?thesis
    by (auto simp add: rgCore_index Singular_pods)
qed

text \<open>
  C1 as stated fails. On the same index \<^verbatim>\<open>Pods\<close> is an unknown kind: its lower-cased form
  \<^verbatim>\<open>pods\<close> is not a key, and its singular \<^verbatim>\<open>Pod\<close> is not lower-cased before the second
  lookup. And where the cluster also has a kind \<^verbatim>\<open>Pods\<close>, the input \<^verbatim>\<open>pods\<close> resolves to
  that kind, not to the descriptor of \<^verbatim>\<open>Pod\<close>.
\<close>

theorem ParseKind_Pods_counterexample:
  "ParseKind Singular rgCore ''Pod'' = (podGVR, None)
   \<and> ParseKind Singular rgCore ''Pods'' = (zeroGVR, Some UnknownKind)
   \<and> ParseKind Singular rgTwoKinds ''pod'' = (podGVR, None)
   \<and> ParseKind Singular rgTwoKinds ''pods''
       = (\<lparr>Group = ''example.com'', Version = ''v1'', Resource = ''podses''\<rparr>, None)"
  by (simp add: ParseKind_eq rgCore_index rgTwoKinds_index ToLower_Pod ToLower_Pods ToLower_pod
      ToLower_pods Singular_Pods)

lemma ParseGroupVersion_extensions:
  "ParseGroupVersion ''extensions/v1beta1'' = Inr (''extensions'', ''v1beta1'')"
  by (simp add: ParseGroupVersion_def)

lemma ParseGroupVersion_networking:
  "ParseGroupVersion ''networking.k8s.io/v1'' = Inr (''networking.k8s.io'', ''v1'')"
  by (simp add: ParseGroupVersion_def)

lemma ParseGroupVersion_events:
  "ParseGroupVersion ''events.k8s.io/v1'' = Inr (''events.k8s.io'', ''v1'')"
  by (simp add: ParseGroupVersion_def)

lemma ParseGroupVersion_broken:
  "ParseGroupVersion ''a/b/c'' = Inl (Failure ''unexpected GroupVersion string'')"
  by (simp add: ParseGroupVersion_def)

lemma ToLower_Ingress: "ToLower ''Ingress'' = ''ingress''"
  by code_simp

lemma ToLower_Event: "ToLower ''Event'' = ''event''"
  by code_simp

lemma entries_ingress:
  "entries ParseGroupVersion [extensionsList, networkingList] =
     [(''ingress'', \<lparr>Group = ''extensions'', Version = ''v1beta1'', Resource = ''ingresses''\<rparr>),
      (''ingress'', \<lparr>Group = ''networking.k8s.io'', Version = ''v1'', Resource = ''ingresses''\<rparr>)]"
  by (simp add: entries_Cons entries_Nil listEntries_def extensionsList_def networkingList_def
      ingressResource_def ParseGroupVersion_extensions ParseGroupVersion_networking mkGVR_def
      ToLower_Ingress)

lemma entries_events:
  "entries ParseGroupVersion [coreEventList, eventsGroupList] =
     [(''event'', \<lparr>Group = [], Version = ''v1'', Resource = ''events''\<rparr>),
      (''event'', \<lparr>Group = ''events.k8s.io'', Version = ''v1'', Resource = ''events''\<rparr>)]"
  by (simp add: entries_Cons entries_Nil listEntries_def coreEventList_def eventsGroupList_def
      eventResource_def ParseGroupVersion_v1 ParseGroupVersion_events mkGVR_def ToLower_Event)

lemma rgIngress_index:
  "gvktogvrSet rgIngress ''ingress''
     = Some \<lparr>Group = ''networking.k8s.io'', Version = ''v1'', Resource = ''ingresses''\<rparr>"
  by (simp add: rgIngress_def GetGVRs_ok entries_ingress)

lemma rgEvents_index:
  "gvktogvrSet rgEvents ''event''
     = Some \<lparr>Group = ''events.k8s.io'', Version = ''v1'', Resource = ''events''\<rparr>"
  by (simp add: rgEvents_def GetGVRs_ok entries_events)

subsection \<open>Discovery\<close>

text \<open>
  C2, as amended. When the discovery call returns an error, also one that comes with the
  lists of the groups that could be read, \<^verbatim>\<open>GetGVRs\<close> returns that error and leaves the
  descriptor list and the index as they were, so every kind resolves as before the call.
  In a pass without error, a list without resources or with a \<^verbatim>\<open>GroupVersion\<close> that does
  not parse is skipped: the pass gives what it gives without that list.
\<close>

theorem GetGVRs_error_installs_nothing:
  "GetGVRs parseGV (ls, Some e) rg = (rg, Some e)
   \<and> ParseKind singular (fst (GetGVRs parseGV (ls, Some e) rg)) kind = ParseKind singular rg kind
   \<and> (APIResources l = [] \<or> parseGV (GroupVersion l) = Inl e'
        \<longrightarrow> GetGVRs parseGV (before @ l # after, None) rg
              = GetGVRs parseGV (before @ after, None) rg)"
  by (auto simp add: GetGVRs_failed GetGVRs_ok entries_append entries_Cons listEntries_def)

text \<open>A list whose \<^verbatim>\<open>GroupVersion\<close> has two slashes is skipped; the pods of the next list are
  discovered.\<close>

theorem GetGVRs_error_installs_nothing_witness:
  "ParseGroupVersion (GroupVersion brokenList) = Inl (Failure ''unexpected GroupVersion string'')
   \<and> GetGVRs ParseGroupVersion ([brokenList, coreList], None) newResourceGetter
       = (\<lparr>gvrs = [podGVR], gvktogvrSet = [''pod'' \<mapsto> podGVR]\<rparr>, None)"
proof -
  have broken: "ParseGroupVersion (GroupVersion brokenList)
                  = Inl (Failure ''unexpected GroupVersion string'')"
    by (simp add: brokenList_def ParseGroupVersion_broken)
  from broken
  have "GetGVRs ParseGroupVersion ([] @ brokenList # [coreList], None) newResourceGetter
          = GetGVRs ParseGroupVersion ([] @ [coreList], None) newResourceGetter"
    using GetGVRs_error_installs_nothing
      [of ParseGroupVersion "[]" "Failure []" newResourceGetter Singular "[]" brokenList
          "Failure ''unexpected GroupVersion string''" "[]" "[coreList]"]
    by blast
  with broken show ?thesis
    by (simp add: GetGVRs_ok entries_coreList newResourceGetter_def)
qed

text \<open>
  C2 as stated fails. The discovery call read the core group and failed on another one;
  \<^verbatim>\<open>GetGVRs\<close> on a fresh resource getter returns the error, no descriptor is recorded and
  \<^verbatim>\<open>pod\<close>, a kind of the group that was read, is unknown.
\<close>

theorem GetGVRs_partial_failure_counterexample:
  "GetGVRs ParseGroupVersion partialDiscovery newResourceGetter
     = (newResourceGetter, Some (Failure ''unable to retrieve the complete list of server APIs''))
   \<and> gvrs (fst (GetGVRs ParseGroupVersion partialDiscovery newResourceGetter)) = []
   \<and> ParseKind Singular (fst (GetGVRs ParseGroupVersion partialDiscovery newResourceGetter)) ''pod''
       = (zeroGVR, Some UnknownKind)"
  by (simp add: partialDiscovery_def GetGVRs_failed ParseKind_eq newResourceGetter_def ToLower_pod)

text \<open>
  C4, as amended. After a pass without error the descriptor list holds exactly the
  descriptors of the resources of the kept lists, in the order of the lists; the keys of
  the index are exactly the lower-cased kinds of these resources; every key maps to the
  descriptor of a kept resource of that lower-cased kind; and when no two kept resources
  share a lower-cased kind, each of them is found under its own. Lists without resources
  and lists whose \<^verbatim>\<open>GroupVersion\<close> does not parse contribute nothing (\<open>listEntries\<close>).
\<close>

theorem GetGVRs_builds_index:
  assumes "GetGVRs parseGV (ls, None) rg = (rg', err)"
  shows "err = None
    \<and> gvrs rg' = map snd (entries parseGV ls)
    \<and> dom (gvktogvrSet rg') = fst ` set (entries parseGV ls)
    \<and> (\<forall>k g. gvktogvrSet rg' k = Some g \<longrightarrow> (k, g) \<in> set (entries parseGV ls))
    \<and> (distinct (map fst (entries parseGV ls))
         \<longrightarrow> (\<forall>(k, g) \<in> set (entries parseGV ls). gvktogvrSet rg' k = Some g))"
proof -
  from assms have err: "err = None"
    and g: "gvrs rg' = map snd (entries parseGV ls)"
    and idx: "gvktogvrSet rg' = map_of (rev (entries parseGV ls))"
    by (auto simp add: GetGVRs_ok)
  have d: "dom (gvktogvrSet rg') = fst ` set (entries parseGV ls)"
    by (simp add: idx dom_map_of_conv_image_fst)
  have m: "\<forall>k g. gvktogvrSet rg' k = Some g \<longrightarrow> (k, g) \<in> set (entries parseGV ls)"
    using map_of_SomeD [of "rev (entries parseGV ls)"] by (auto simp add: idx)
  have u: "distinct (map fst (entries parseGV ls))
             \<longrightarrow> (\<forall>(k, g) \<in> set (entries parseGV ls). gvktogvrSet rg' k = Some g)"
    by (auto simp add: idx rev_map [symmetric])
  from err g d m u show ?thesis by blast
qed

text \<open>The pass over the core list.\<close>

theorem GetGVRs_builds_index_witness:
  "gvrs rgCore = [podGVR] \<and> dom (gvktogvrSet rgCore) = {''pod''}
   \<and> gvktogvrSet rgCore ''pod'' = Some podGVR"
proof -
  have run: "GetGVRs ParseGroupVersion ([coreList], None) newResourceGetter
               = (rgCore, snd (GetGVRs ParseGroupVersion ([coreList], None) newResourceGetter))"
    by (simp add: rgCore_def)
  from GetGVRs_builds_index [OF run] show ?thesis
    by (simp add: entries_coreList)
qed

text \<open>
  C4 as stated fails. Two groups serve the kind \<^verbatim>\<open>Ingress\<close>; the list of the first is
  kept, and yet the index does not map \<^verbatim>\<open>ingress\<close> to the descriptor of the first.
\<close>

theorem GetGVRs_duplicate_kind_counterexample:
  "APIResources extensionsList = [ingressResource]
   \<and> ParseGroupVersion (GroupVersion extensionsList) = Inr (''extensions'', ''v1beta1'')
   \<and> gvktogvrSet rgIngress (ToLower (Kind ingressResource))
       \<noteq> Some (mkGVR (''extensions'', ''v1beta1'') ingressResource)
   \<and> gvktogvrSet rgIngress (ToLower (Kind ingressResource))
       = Some \<lparr>Group = ''networking.k8s.io'', Version = ''v1'', Resource = ''ingresses''\<rparr>"
  by (simp add: extensionsList_def ingressResource_def ParseGroupVersion_extensions
      ToLower_Ingress mkGVR_def rgIngress_index)

text \<open>
  C6, as amended. The index maps a lower-cased kind to the descriptor of the last
  discovered resource of that lower-cased kind: a resource is found under its kind when
  no resource after it shares the lower-cased kind, and it is overwritten when a later
  one of another group or version does.
\<close>

theorem GetGVRs_last_entry_wins:
  assumes "GetGVRs parseGV (ls, None) rg = (rg', err)"
    and "entries parseGV ls = before @ (k, g) # after"
  shows "(k \<notin> fst ` set after \<longrightarrow> gvktogvrSet rg' k = Some g)
       \<and> (\<forall>g'. (k, g') \<in> set after \<and> g' \<noteq> g \<and> distinct (map fst after)
              \<longrightarrow> gvktogvrSet rg' k = Some g' \<and> gvktogvrSet rg' k \<noteq> Some g)"
proof -
  from assms(1) have idx: "gvktogvrSet rg' = map_of (rev (entries parseGV ls))"
    by (auto simp add: GetGVRs_ok)
  have a: "k \<notin> fst ` set after \<longrightarrow> gvktogvrSet rg' k = Some g"
  proof
    assume "k \<notin> fst ` set after"
    then show "gvktogvrSet rg' k = Some g"
      unfolding idx assms(2) by (rule map_of_rev_last)
  qed
  have b: "gvktogvrSet rg' k = Some g'" if "(k, g') \<in> set after" "distinct (map fst after)" for g'
  proof -
    from that have "map_of (rev after) k = Some g'"
      by (simp add: rev_map [symmetric])
    then show ?thesis
      by (simp add: idx assms(2) map_of_append map_add_def)
  qed
  from a b show ?thesis by auto
qed

text \<open>The kind \<^verbatim>\<open>Event\<close> of the core group and of the group \<^verbatim>\<open>events.k8s.io\<close>.\<close>

theorem GetGVRs_last_entry_wins_witness:
  "gvktogvrSet rgEvents ''event''
     = Some \<lparr>Group = ''events.k8s.io'', Version = ''v1'', Resource = ''events''\<rparr>
   \<and> gvktogvrSet rgEvents ''event'' \<noteq> Some \<lparr>Group = [], Version = ''v1'', Resource = ''events''\<rparr>"
proof -
  have run: "GetGVRs ParseGroupVersion ([coreEventList, eventsGroupList], None) newResourceGetter
     = (rgEvents, snd (GetGVRs ParseGroupVersion ([coreEventList, eventsGroupList], None) newResourceGetter))"
    by (simp add: rgEvents_def)
  have first: "entries ParseGroupVersion [coreEventList, eventsGroupList]
     = [] @ (''event'', \<lparr>Group = [], Version = ''v1'', Resource = ''events''\<rparr>)
          # [(''event'', \<lparr>Group = ''events.k8s.io'', Version = ''v1'', Resource = ''events''\<rparr>)]"
    by (simp add: entries_events)
  have last: "entries ParseGroupVersion [coreEventList, eventsGroupList]
     = [(''event'', \<lparr>Group = [], Version = ''v1'', Resource = ''events''\<rparr>)]
          @ (''event'', \<lparr>Group = ''events.k8s.io'', Version = ''v1'', Resource = ''events''\<rparr>) # []"
    by (simp add: entries_events)
  from GetGVRs_last_entry_wins [OF run last]
  have found: "gvktogvrSet rgEvents ''event''
     = Some \<lparr>Group = ''events.k8s.io'', Version = ''v1'', Resource = ''events''\<rparr>"
    by simp
  from GetGVRs_last_entry_wins [OF run first]
  have "gvktogvrSet rgEvents ''event'' \<noteq> Some \<lparr>Group = [], Version = ''v1'', Resource = ''events''\<rparr>"
    by simp
  with found show ?thesis by blast
qed

text \<open>
  C6 as stated fails. Each of the two groups has one version, the core list is kept, and
  the lookup of the lower-cased kind of its resource does not yield that resource's own
  descriptor.
\<close>

theorem GetGVRs_overwrite_counterexample:
  "listEntries ParseGroupVersion coreEventList
     = [(ToLower (Kind eventResource), mkGVR ([], ''v1'') eventResource)]
   \<and> gvktogvrSet rgEvents (ToLower (Kind eventResource)) \<noteq> Some (mkGVR ([], ''v1'') eventResource)"
  by (simp add: listEntries_def coreEventList_def eventResource_def ParseGroupVersion_v1
      ToLower_Event mkGVR_def rgEvents_index)

subsection \<open>Further properties of the index\<close>

lemma lowerChar_idem: "lowerChar (lowerChar c) = lowerChar c"
  by (simp add: lowerChar_def Let_def)

lemma ToLower_idem: "ToLower (ToLower s) = ToLower s"
  by (simp add: ToLower_def lowerChar_idem)

lemma entries_keys_lower:
  "(k, g) \<in> set (entries parseGV ls) \<Longrightarrow> ToLower k = k"
  by (auto simp add: entries_def listEntries_def ToLower_idem split: if_splits sum.splits)

text \<open>
  X1. Every key of an index that \<^verbatim>\<open>GetGVRs\<close> built is lower-case. So the second lookup of
  \<^verbatim>\<open>ParseKind\<close>, under the singular of the kind as given, can only hit when that singular
  is lower-case already: a kind whose lower-cased form is no key and whose singular has
  an upper-case letter is unknown, whatever the singular form is otherwise.
\<close>

theorem index_keys_lower_case:
  assumes "GetGVRs parseGV (ls, None) rg0 = (rg, err)"
  shows "(\<forall>k \<in> dom (gvktogvrSet rg). ToLower k = k)
       \<and> (ToLower (singular kind) \<noteq> singular kind \<and> gvktogvrSet rg (ToLower kind) = None
            \<longrightarrow> ParseKind singular rg kind = (zeroGVR, Some UnknownKind))"
proof -
  from assms have idx: "gvktogvrSet rg = map_of (rev (entries parseGV ls))"
    by (auto simp add: GetGVRs_ok)
  have keys: "ToLower k = k" if "k \<in> dom (gvktogvrSet rg)" for k
  proof -
    from that obtain g where "map_of (rev (entries parseGV ls)) k = Some g"
      by (auto simp add: idx)
    then have "(k, g) \<in> set (entries parseGV ls)"
      using map_of_SomeD [of "rev (entries parseGV ls)" k g] by simp
    then show ?thesis by (rule entries_keys_lower)
  qed
  have miss: "gvktogvrSet rg (singular kind) = None" if "ToLower (singular kind) \<noteq> singular kind"
    using that keys [of "singular kind"] by (cases "gvktogvrSet rg (singular kind)") auto
  from keys miss show ?thesis
    by (auto simp add: ParseKind_eq)
qed

text \<open>The index of the core list and the spelling \<^verbatim>\<open>PODS\<close>.\<close>

theorem index_keys_lower_case_witness:
  "dom (gvktogvrSet rgCore) = {''pod''} \<and> ToLower ''pod'' = ''pod''
   \<and> ParseKind Singular rgCore ''PODS'' = (zeroGVR, Some UnknownKind)"
proof -
  have run: "GetGVRs ParseGroupVersion ([coreList], None) newResourceGetter
               = (rgCore, snd (GetGVRs ParseGroupVersion ([coreList], None) newResourceGetter))"
    by (simp add: rgCore_def)
  have s: "Singular ''PODS'' = ''POD''" "ToLower ''POD'' = ''pod''" "ToLower ''PODS'' = ''pods''"
    by code_simp+
  from index_keys_lower_case [OF run, of Singular "''PODS''"] show ?thesis
    by (simp add: rgCore_index s ToLower_pod)
qed

text \<open>
  X2. A pass without error replaces the descriptor list and the index wholesale: what
  it installs is what the same pass installs in a fresh resource getter.
\<close>

theorem GetGVRs_rebuilds:
  "fst (GetGVRs parseGV (ls, None) rg)
     = rg\<lparr>gvrs := gvrs (fst (GetGVRs parseGV (ls, None) newResourceGetter)),
          gvktogvrSet := gvktogvrSet (fst (GetGVRs parseGV (ls, None) newResourceGetter))\<rparr>"
  by (simp add: GetGVRs_ok)

section \<open>Properties of the table operations\<close>

lemma db_Updates_ok:
  "db_Updates None cond updates t =
     (map (\<lambda>r. if cond r then r ++ updates else r) t, None, length (filter cond t))"
  by (simp add: db_Updates_def)

lemma filter_empty_map_id:
  "filter cond t = [] \<Longrightarrow> map (\<lambda>r. if cond r then f r else r) t = t"
  by (induction t) (auto split: if_splits)

lemma tenant_Update_eq:
  "tenant_Update fault now t tid rv updates =
     (case fault of
        Some err \<Rightarrow> (t, Some err)
      | None \<Rightarrow>
          if filter (whereIdVersion tid rv) t = [] then (t, Some ErrRecordNotFound)
          else (map (\<lambda>r. if whereIdVersion tid rv r
                          then r ++ updates(''gmt_modified'' \<mapsto> TimeV now,
                                            ''resource_version'' \<mapsto> IntV (rv + 1))
                          else r) t, None))"
  by (simp add: tenant_Update_def db_Updates_def filter_empty_map_id split: option.split)

lemma user_Update_eq:
  "user_Update fault now t uid rv updates =
     (case fault of
        Some err \<Rightarrow> (t, Some err)
      | None \<Rightarrow>
          if filter (whereIdVersion uid rv) t = [] then (t, Some ErrRecordNotUpdate)
          else (map (\<lambda>r. if whereIdVersion uid rv r
                          then r ++ updates(''gmt_modified'' \<mapsto> TimeV now,
                                            ''resource_version'' \<mapsto> IntV (rv + 1))
                          else r) t, None))"
  by (simp add: user_Update_def db_Updates_def filter_empty_map_id split: option.split)

lemma sint_succ: "sint (rv :: int64) < 2 ^ 63 - 1 \<Longrightarrow> sint (rv + 1) = sint rv + 1"
proof -
  assume a: "sint rv < 2 ^ 63 - 1"
  have lo: "- (2 ^ 63) \<le> sint rv" using sint_ge [of rv] by simp
  have "sint (rv + 1) = signed_take_bit 63 (sint rv + 1)"
    by (simp add: sint_word_ariths)
  also have "\<dots> = sint rv + 1"
    using a lo by (intro signed_take_bit_int_eq_self) auto
  finally show ?thesis .
qed



lemma filter_empty_conv_set: "(filter cond t = []) = (\<not> (\<exists>r \<in> set t. cond r))"
  by (simp add: filter_empty_conv)

lemma whereIdVersion_tenantRow:
  "whereIdVersion tid rv (tenantRow i v n) = (i = tid \<and> v = rv)"
  by (simp add: whereIdVersion_def tenantRow_def)

lemma whereId_tenantRow: "whereId tid (tenantRow i v n) = (i = tid)"
  by (simp add: whereId_def tenantRow_def)

lemma updated_version:
  "(r ++ updates(''gmt_modified'' \<mapsto> TimeV now, ''resource_version'' \<mapsto> IntV v))
     ''resource_version'' = Some (IntV v)"
  by simp

text \<open>
  C8, as amended. \<^verbatim>\<open>tenant.Update\<close> and \<^verbatim>\<open>user.Update\<close> succeed exactly when the statement
  runs and a stored row has the given id and the given resource version. Otherwise they
  return an error (\<^verbatim>\<open>ErrRecordNotFound\<close> and \<^verbatim>\<open>ErrRecordNotUpdate\<close> when no row matches)
  and the table is unchanged. On success every other row is unchanged, and a matching
  row gets the caller's columns, the modification time, and the resource version
  \<^verbatim>\<open>resourceVersion + 1\<close>, which is one more than the stored version as long as that is
  below the largest \<^verbatim>\<open>int64\<close>.
\<close>

theorem Update_optimistic:
  "(snd (tenant_Update fault now t tid rv updates) = None)
      = (fault = None \<and> (\<exists>r \<in> set t. whereIdVersion tid rv r))
   \<and> (snd (user_Update fault now t tid rv updates) = None)
      = (fault = None \<and> (\<exists>r \<in> set t. whereIdVersion tid rv r))
   \<and> (fault = None \<and> \<not> (\<exists>r \<in> set t. whereIdVersion tid rv r)
        \<longrightarrow> tenant_Update fault now t tid rv updates = (t, Some ErrRecordNotFound)
          \<and> user_Update fault now t tid rv updates = (t, Some ErrRecordNotUpdate))
   \<and> (snd (tenant_Update fault now t tid rv updates) \<noteq> None
        \<longrightarrow> fst (tenant_Update fault now t tid rv updates) = t)
   \<and> (snd (user_Update fault now t tid rv updates) \<noteq> None
        \<longrightarrow> fst (user_Update fault now t tid rv updates) = t)
   \<and> (snd (tenant_Update fault now t tid rv updates) = None
        \<longrightarrow> fst (user_Update fault now t tid rv updates)
              = fst (tenant_Update fault now t tid rv updates)
          \<and> length (fst (tenant_Update fault now t tid rv updates)) = length t
          \<and> (\<forall>i < length t.
                if whereIdVersion tid rv (t ! i)
                then fst (tenant_Update fault now t tid rv updates) ! i
                       = (t ! i) ++ updates(''gmt_modified'' \<mapsto> TimeV now,
                                           ''resource_version'' \<mapsto> IntV (rv + 1))
                   \<and> (fst (tenant_Update fault now t tid rv updates) ! i) ''resource_version''
                       = Some (IntV (rv + 1))
                   \<and> (sint rv < 2 ^ 63 - 1 \<longrightarrow> sint (rv + 1) = sint rv + 1)
                else fst (tenant_Update fault now t tid rv updates) ! i = t ! i))"
proof (cases fault)
  case (Some err)
  then show ?thesis
    by (simp add: tenant_Update_eq user_Update_eq)
next
  case None
  show ?thesis
  proof (cases "\<exists>r \<in> set t. whereIdVersion tid rv r")
    case False
    with None show ?thesis
      by (simp add: tenant_Update_eq user_Update_eq filter_empty_conv)
  next
    case True
    then have ne: "filter (whereIdVersion tid rv) t \<noteq> []"
      by (simp add: filter_empty_conv)
    from None ne True show ?thesis
      by (simp add: tenant_Update_eq user_Update_eq sint_succ del: map_add_upd fun_upd_apply)
         (simp add: updated_version)
  qed
qed

text \<open>An update at the stored version, one at a stale version and one of a missing id.\<close>

theorem Update_optimistic_witness:
  "snd (tenant_Update None 7 [tenantRow 1 3 ''a'', tenantRow 2 3 ''b''] 1 3 (renameTo ''c'')) = None
   \<and> map (\<lambda>r. (r ''id'', r ''resource_version'', r ''name'', r ''gmt_modified''))
        (fst (tenant_Update None 7 [tenantRow 1 3 ''a'', tenantRow 2 3 ''b''] 1 3 (renameTo ''c'')))
      = [(Some (IntV 1), Some (IntV 4), Some (StrV ''c''), Some (TimeV 7)),
         (Some (IntV 2), Some (IntV 3), Some (StrV ''b''), None)]
   \<and> tenant_Update None 7 [tenantRow 1 3 ''a'', tenantRow 2 3 ''b''] 1 2 (renameTo ''c'')
      = ([tenantRow 1 3 ''a'', tenantRow 2 3 ''b''], Some ErrRecordNotFound)
   \<and> user_Update None 7 [tenantRow 1 3 ''a'', tenantRow 2 3 ''b''] 5 3 (renameTo ''c'')
      = ([tenantRow 1 3 ''a'', tenantRow 2 3 ''b''], Some ErrRecordNotUpdate)"
proof -
  let ?t = "[tenantRow 1 3 ''a'', tenantRow 2 3 ''b'']"
  have ok: "snd (tenant_Update None 7 ?t 1 3 (renameTo ''c'')) = None"
    using Update_optimistic [of None 7 ?t 1 3 "renameTo ''c''"]
    by (simp add: whereIdVersion_tenantRow)
  have rows: "map (\<lambda>r. (r ''id'', r ''resource_version'', r ''name'', r ''gmt_modified''))
        (fst (tenant_Update None 7 ?t 1 3 (renameTo ''c'')))
      = [(Some (IntV 1), Some (IntV 4), Some (StrV ''c''), Some (TimeV 7)),
         (Some (IntV 2), Some (IntV 3), Some (StrV ''b''), None)]"
    by (simp add: tenant_Update_eq whereIdVersion_tenantRow)
       (simp add: tenantRow_def renameTo_def)
  have stale: "tenant_Update None 7 ?t 1 2 (renameTo ''c'') = (?t, Some ErrRecordNotFound)"
    using Update_optimistic [of None 7 ?t 1 2 "renameTo ''c''"]
    by (simp add: whereIdVersion_tenantRow)
  have missing: "user_Update None 7 ?t 5 3 (renameTo ''c'') = (?t, Some ErrRecordNotUpdate)"
    using Update_optimistic [of None 7 ?t 5 3 "renameTo ''c''"]
    by (simp add: whereIdVersion_tenantRow)
  from ok rows stale missing show ?thesis by blast
qed

text \<open>
  C8 as stated fails at the largest \<^verbatim>\<open>int64\<close>: the update succeeds and the stored
  resource version becomes the smallest \<^verbatim>\<open>int64\<close>, so it decreases.
\<close>

theorem Update_wraps_counterexample:
  "snd (tenant_Update None 7 [tenantRow 1 maxInt64 ''a''] 1 maxInt64 (renameTo ''c'')) = None
   \<and> map (\<lambda>r. r ''resource_version'')
        (fst (tenant_Update None 7 [tenantRow 1 maxInt64 ''a''] 1 maxInt64 (renameTo ''c'')))
      = [Some (IntV (maxInt64 + 1))]
   \<and> sint maxInt64 = 9223372036854775807
   \<and> sint (maxInt64 + 1) = - 9223372036854775808"
  by (simp add: tenant_Update_eq whereIdVersion_tenantRow)
     (simp add: maxInt64_def)

lemma remove1_only_match:
  "filter cond t = [object] \<Longrightarrow> filter (\<lambda>r. \<not> cond r) t = remove1 object t"
proof (induction t)
  case Nil
  then show ?case by simp
next
  case (Cons r t)
  show ?case
  proof (cases "cond r")
    case True
    with Cons.prems have "r = object" and "filter cond t = []" by simp_all
    then have "filter (\<lambda>r. \<not> cond r) t = t"
      by (simp add: filter_empty_conv)
    with True \<open>r = object\<close> show ?thesis by simp
  next
    case False
    with Cons.prems have f: "filter cond t = [object]" by simp
    then have "object \<in> set (filter cond t)" by simp
    then have "cond object" by simp
    with False have "r \<noteq> object" by auto
    with False Cons.IH [OF f] show ?thesis by simp
  qed
qed

text \<open>
  C9. With the database answering: when no row has the id, \<^verbatim>\<open>tenant.Get\<close> returns neither
  an object nor an error, and \<^verbatim>\<open>tenant.Delete\<close> does the same and leaves the table as it
  is. When a row has the id, \<^verbatim>\<open>Get\<close> returns it, and \<^verbatim>\<open>Delete\<close> returns it and removes the
  rows of that id: exactly this row when it is the only one of that id.
\<close>

theorem tenant_Get_Delete:
  "(filter (whereId tid) t = []
      \<longrightarrow> tenant_Get None t tid = (None, None)
        \<and> tenant_Delete None faultDelete t tid = (t, None, None))
   \<and> (filter (whereId tid) t = object # rest
      \<longrightarrow> tenant_Get None t tid = (Some object, None)
        \<and> tenant_Delete None None t tid = (filter (\<lambda>r. \<not> whereId tid r) t, Some object, None)
        \<and> (rest = [] \<longrightarrow> fst (tenant_Delete None None t tid) = remove1 object t))"
  by (auto simp add: tenant_Get_def tenant_Delete_def db_First_def db_Delete_def
      IsRecordNotFound_def remove1_only_match)

text \<open>A table of two tenants: the id 5 is missing, the id 2 is there.\<close>

theorem tenant_Get_Delete_witness:
  "tenant_Get None [tenantRow 1 3 ''a'', tenantRow 2 3 ''b''] 5 = (None, None)
   \<and> tenant_Delete None None [tenantRow 1 3 ''a'', tenantRow 2 3 ''b''] 5
       = ([tenantRow 1 3 ''a'', tenantRow 2 3 ''b''], None, None)
   \<and> tenant_Get None [tenantRow 1 3 ''a'', tenantRow 2 3 ''b''] 2 = (Some (tenantRow 2 3 ''b''), None)
   \<and> tenant_Delete None None [tenantRow 1 3 ''a'', tenantRow 2 3 ''b''] 2
       = ([tenantRow 1 3 ''a''], Some (tenantRow 2 3 ''b''), None)"
proof -
  let ?t = "[tenantRow 1 3 ''a'', tenantRow 2 3 ''b'']"
  have none: "filter (whereId 5) ?t = []"
    by (simp add: whereId_tenantRow)
  have one: "filter (whereId 2) ?t = tenantRow 2 3 ''b'' # []"
    by (simp add: whereId_tenantRow)
  from tenant_Get_Delete [of 5 ?t None "tenantRow 2 3 ''b''" "[]"] none
  have a: "tenant_Get None ?t 5 = (None, None)" "tenant_Delete None None ?t 5 = (?t, None, None)"
    by simp_all
  from tenant_Get_Delete [of 2 ?t None "tenantRow 2 3 ''b''" "[]"] one
  have b: "tenant_Get None ?t 2 = (Some (tenantRow 2 3 ''b''), None)"
    "tenant_Delete None None ?t 2 = ([tenantRow 1 3 ''a''], Some (tenantRow 2 3 ''b''), None)"
    by (simp_all add: whereId_tenantRow)
  from a b show ?thesis by blast
qed

section \<open>Properties of the watch cache\<close>

lemma applyUpdates_fold: "applyUpdates evs cache = fold applyUpdate evs cache"
  by (induction evs arbitrary: cache) simp_all

lemma applyUpdate_commute:
  assumes "cacheKey a \<noteq> cacheKey b \<or> versionToken a \<noteq> versionToken b"
  shows "applyUpdate a (applyUpdate b cache) = applyUpdate b (applyUpdate a cache)"
proof (cases "cacheKey a = cacheKey b")
  case False
  then show ?thesis
    by (auto simp add: applyUpdate_def fun_upd_twist split: option.split)
next
  case True
  with assms have "versionToken a \<noteq> versionToken b" by simp
  with True show ?thesis
    by (cases "cache (cacheKey b)") (auto simp add: applyUpdate_def)
qed

lemma applyUpdate_monotone:
  assumes "cache k = Some cur"
  shows "\<exists>cur'. applyUpdate ev cache k = Some cur' \<and> versionToken cur \<le> versionToken cur'"
  using assms by (auto simp add: applyUpdate_def split: option.split)

lemma applyUpdates_monotone:
  assumes "cache k = Some cur"
  shows "\<exists>cur'. applyUpdates evs cache k = Some cur' \<and> versionToken cur \<le> versionToken cur'"
  using assms
proof (induction evs arbitrary: cache cur)
  case Nil
  then show ?case by simp
next
  case (Cons ev evs)
  from applyUpdate_monotone [of cache k cur ev] Cons.prems
  obtain mid where mid: "applyUpdate ev cache k = Some mid" "versionToken cur \<le> versionToken mid"
    by blast
  from Cons.IH [of "applyUpdate ev cache" mid] mid show ?case
    by (auto intro: order_trans)
qed

lemma applyUpdate_changes:
  assumes "applyUpdate ev cache k \<noteq> cache k"
  shows "k = cacheKey ev \<and> applyUpdate ev cache k = Some ev
       \<and> (\<forall>cur. cache k = Some cur \<longrightarrow> versionToken cur < versionToken ev)"
  using assms by (auto simp add: applyUpdate_def split: option.splits if_splits)

lemma applyUpdates_permute:
  assumes "mset evs = mset evs'" and "distinct (map versionToken evs)"
  shows "applyUpdates evs cache = applyUpdates evs' cache"
  unfolding applyUpdates_fold
proof (rule fold_permuted_eq [where P = "\<lambda>_. True"])
  show "mset evs = mset evs'" by fact
next
  fix x y :: cachedObject and z :: WatchCache
  assume "x \<in> set evs" "y \<in> set evs"
  with assms(2) have "x = y \<or> versionToken x \<noteq> versionToken y"
    by (auto simp add: distinct_map inj_on_def)
  then show "applyUpdate x (applyUpdate y z) = applyUpdate y (applyUpdate x z)"
    by (auto intro: applyUpdate_commute)
qed simp_all

text \<open>
  C5. Update events with the version tokens 5, 3, 7, 6, applied to the empty cache in
  this order, leave the same cache as the same events applied in increasing order of
  their tokens, whatever objects they are for. More generally the final cache does not
  depend on the order of events whose tokens are distinct. No event regresses an entry:
  an entry of the cache stays an entry, with a token at least as large, and an event
  changes the cache only at its own key, to itself, and only over an entry with a
  strictly smaller token.
\<close>

theorem drop_stale_order_tolerant:
  "(versionToken e5 = 5 \<and> versionToken e3 = 3 \<and> versionToken e7 = 7 \<and> versionToken e6 = 6
      \<longrightarrow> applyUpdates [e5, e3, e7, e6] Map.empty = applyUpdates [e3, e5, e6, e7] Map.empty)
   \<and> (mset evs = mset evs' \<and> distinct (map versionToken evs)
      \<longrightarrow> applyUpdates evs cache = applyUpdates evs' cache)
   \<and> (cache k = Some cur
      \<longrightarrow> (\<exists>cur'. applyUpdates evs cache k = Some cur' \<and> versionToken cur \<le> versionToken cur'))
   \<and> (applyUpdate ev cache k \<noteq> cache k
      \<longrightarrow> k = cacheKey ev \<and> applyUpdate ev cache k = Some ev
        \<and> (\<forall>cur. cache k = Some cur \<longrightarrow> versionToken cur < versionToken ev))"
proof -
  have four: "applyUpdates [e5, e3, e7, e6] Map.empty = applyUpdates [e3, e5, e6, e7] Map.empty"
    if "versionToken e5 = 5" "versionToken e3 = 3" "versionToken e7 = 7" "versionToken e6 = 6"
    by (rule applyUpdates_permute) (simp_all add: that)
  show ?thesis
    using four applyUpdates_permute [of evs evs' cache] applyUpdates_monotone [of cache k cur evs]
      applyUpdate_changes [of ev cache k]
    by blast
qed

text \<open>Four revisions of one object; and a stale revision that is dropped.\<close>

theorem drop_stale_order_tolerant_witness:
  "applyUpdates [podAt 5, podAt 3, podAt 7, podAt 6] Map.empty
     = applyUpdates [podAt 3, podAt 5, podAt 6, podAt 7] Map.empty
   \<and> applyUpdates [podAt 5, podAt 3, podAt 7, podAt 6] Map.empty (''default'', ''a'')
       = Some (podAt 7)
   \<and> applyUpdates [podAt 3] [(''default'', ''a'') \<mapsto> podAt 5] (''default'', ''a'')
       = Some (podAt 5)"
proof -
  have tok: "versionToken (podAt n) = n" for n
    by (simp add: podAt_def)
  have a: "applyUpdates [podAt 5, podAt 3, podAt 7, podAt 6] Map.empty
             = applyUpdates [podAt 3, podAt 5, podAt 6, podAt 7] Map.empty"
    using drop_stale_order_tolerant [of "podAt 5" "podAt 3" "podAt 7" "podAt 6"]
    by (simp add: tok)
  have b: "applyUpdates [podAt 5, podAt 3, podAt 7, podAt 6] Map.empty (''default'', ''a'')
             = Some (podAt 7)"
    by (simp add: applyUpdate_def cacheKey_def podAt_def)
  have c: "applyUpdates [podAt 3] [(''default'', ''a'') \<mapsto> podAt 5] (''default'', ''a'')
             = Some (podAt 5)"
    by (simp add: applyUpdate_def cacheKey_def podAt_def)
  from a b c show ?thesis by blast
qed

section \<open>Properties of the kubeconfig operations\<close>

lemmas action_defs = andThen_def succeed_def failWith_def pure_def remote_def dbRead_def dbWrite_def

text \<open>
  C10. With a nil client each of \<^verbatim>\<open>Create\<close>, \<^verbatim>\<open>Update\<close>, \<^verbatim>\<open>Delete\<close>, \<^verbatim>\<open>Get\<close> and \<^verbatim>\<open>List\<close> returns
  \<^verbatim>\<open>clientError\<close> and the world is the one before the call: the cluster and the database
  are unchanged and the log of calls has no new entry, so neither was called or read.
\<close>

theorem nil_client_guard:
  assumes "client c = None"
  shows "kubeConfigs_Create lib c kubeConfig w = (Inl clientError, w)
       \<and> kubeConfigs_Update lib c kid w = (Inl clientError, w)
       \<and> kubeConfigs_Delete c kid w = (Inl clientError, w)
       \<and> kubeConfigs_Get lib c kid w = (Inl clientError, w)
       \<and> kubeConfigs_List lib c cloudName w = (Inl clientError, w)"
  using assms
  by (simp add: kubeConfigs_Create_def kubeConfigs_Update_def kubeConfigs_Delete_def
      kubeConfigs_Get_def kubeConfigs_List_def failWith_def)

text \<open>The five operations without a client, on a database of one row.\<close>

theorem nil_client_guard_witness:
  "kubeConfigs_Create plainLibraries nilClientConfigs (model2Type storedConfig) someWorld
     = (Inl clientError, someWorld)
   \<and> kubeConfigs_Update plainLibraries nilClientConfigs 0 someWorld = (Inl clientError, someWorld)
   \<and> kubeConfigs_Delete nilClientConfigs 0 someWorld = (Inl clientError, someWorld)
   \<and> kubeConfigs_Get plainLibraries nilClientConfigs 0 someWorld = (Inl clientError, someWorld)
   \<and> kubeConfigs_List plainLibraries nilClientConfigs ''c1'' someWorld
       = (Inl clientError, someWorld)
   \<and> calls someWorld = []"
proof -
  have nil: "client nilClientConfigs = None"
    by (simp add: nilClientConfigs_def)
  from nil_client_guard [OF nil, of plainLibraries "model2Type storedConfig" someWorld 0 "''c1''"]
  show ?thesis
    by (simp add: someWorld_def)
qed

text \<open>With a client the same operations do reach the database and the cluster.\<close>

lemma live_client_Get:
  "kubeConfigs_Get plainLibraries liveConfigs 0 someWorld
     = (Inr (model2Type storedConfig), someWorld\<lparr>calls := [DbRead ''Get'']\<rparr>)"
  by (simp add: kubeConfigs_Get_def liveConfigs_def action_defs listDao_def someWorld_def
      plainLibraries_def storedConfig_def model2Type_def)

lemma live_client_Delete:
  "kubeConfigs_Delete liveConfigs 0 someWorld
     = (Inr (), \<lparr>cluster = 2, database = [storedConfig],
                 calls = [DbRead ''Get'', RemoteCall ''ClusterRoleBindings.Delete'',
                          RemoteCall ''ServiceAccounts.Delete'', DbWrite ''Delete'']\<rparr>)"
  by (simp add: kubeConfigs_Delete_def liveConfigs_def action_defs listDao_def someWorld_def
      okClient_def)

lemma live_client_Create:
  "snd (kubeConfigs_Create plainLibraries liveConfigs (model2Type storedConfig) someWorld)
     = \<lparr>cluster = 3,
        database = [storedConfig, storedConfig\<lparr>Config := ''t''\<rparr>],
        calls = [RemoteCall ''ServiceAccounts.Create'', RemoteCall ''ClusterRoleBindings.Create'',
                 RemoteCall ''ConfigMaps.Get'', RemoteCall ''ServiceAccounts.CreateToken'',
                 DbWrite ''Create'']\<rparr>"
  by (simp add: kubeConfigs_Create_def liveConfigs_def action_defs listDao_def someWorld_def
      okClient_def newCA_def createToken_def plainLibraries_def setServer_def setCA_def setSA_def
      newConfig_def type2Model_def model2Type_def storedConfig_def)

end
